theory Spec2Isabelle
  imports Complex_Main "HOL-Library.AList" "HOL-Library.Sublist"
begin

section \<open>Python values, exceptions and the observable world\<close>

text \<open>
  The values that travel through \<^verbatim>\<open>joker/interfaces/http.py\<close> and
  \<^verbatim>\<open>joker/interfaces/printable.py\<close>: what \<^verbatim>\<open>json.loads\<close> produces, what a caller
  hands over as a request body, and what is stored in the keyword options given to the
  transport. A float is kept as far as Python's truth test needs it: zero or not, with
  the three non-finite tokens \<^verbatim>\<open>json.loads\<close> accepts. A dict is the list of its
  items in insertion order; Python keeps one item per key, and a lookup here takes the
  first item with the key.
\<close>

datatype pyfloat = Finite rat | PosInfinity | NegInfinity | NaN

datatype pyval =
    PNone
  | PBool bool
  | PInt int
  | PFloat pyfloat
  | PStr string
  | PList "pyval list"
  | PDict "(string \<times> pyval) list"

text \<open>Python's truth test \<^verbatim>\<open>if v:\<close> on these values.\<close>

fun truthy :: "pyval \<Rightarrow> bool" where
  "truthy PNone = False"
| "truthy (PBool b) = b"
| "truthy (PInt i) = (i \<noteq> 0)"
| "truthy (PFloat f) = (f \<noteq> Finite 0)"
| "truthy (PStr s) = (s \<noteq> [])"
| "truthy (PList xs) = (xs \<noteq> [])"
| "truthy (PDict kvs) = (kvs \<noteq> [])"

text \<open>\<^verbatim>\<open>isinstance(v, dict)\<close> and the text of \<^verbatim>\<open>type(v)\<close> as \<^verbatim>\<open>%s\<close> prints it.\<close>

fun is_dict :: "pyval \<Rightarrow> bool" where
  "is_dict (PDict kvs) = True"
| "is_dict v = False"

fun type_name :: "pyval \<Rightarrow> string" where
  "type_name PNone = ''<class 'NoneType'>''"
| "type_name (PBool b) = ''<class 'bool'>''"
| "type_name (PInt i) = ''<class 'int'>''"
| "type_name (PFloat f) = ''<class 'float'>''"
| "type_name (PStr s) = ''<class 'str'>''"
| "type_name (PList xs) = ''<class 'list'>''"
| "type_name (PDict kvs) = ''<class 'dict'>''"

text \<open>
  The exceptions that can arise: a failed \<^verbatim>\<open>assert\<close>, an attribute missing on a value
  (\<^verbatim>\<open>[].get\<close>), a key missing in a dict, \<^verbatim>\<open>json.JSONDecodeError\<close>, a failure to decode
  the body as text, and whatever the transport raises (connection refused, timeout, ...),
  carried with its message.
\<close>

datatype error =
    AssertionError
  | AttributeError
  | KeyError string
  | JSONDecodeError
  | UnicodeDecodeError
  | RequestException string

text \<open>
  \<^verbatim>\<open>v.get(key)\<close>: a dict answers with the stored value or \<^verbatim>\<open>None\<close>; no other value
  of \<^typ>\<open>pyval\<close> has a \<^verbatim>\<open>get\<close> attribute.
\<close>

fun py_get :: "pyval \<Rightarrow> string \<Rightarrow> error + pyval" where
  "py_get (PDict kvs) k = Inr (case map_of kvs k of None \<Rightarrow> PNone | Some v \<Rightarrow> v)"
| "py_get v k = Inl AttributeError"

text \<open>
  \<^verbatim>\<open>str.upper\<close> on the ASCII letters; every other byte is left as it is.
\<close>

definition upper_char :: "char \<Rightarrow> char" where
  "upper_char c =
     (let n = (of_char c :: nat) in if 97 \<le> n \<and> n \<le> 122 then char_of (n - 32) else c)"

definition upper :: "string \<Rightarrow> string" where
  "upper s = map upper_char s"

text \<open>
  Keyword options (\<^verbatim>\<open>**kwargs\<close>) are a dict from option name to value, in insertion
  order. \<^verbatim>\<open>kwargs[k] = v\<close> is \<^const>\<open>AList.update\<close>: it overwrites in place or
  appends. The names are options of the transport (\<^verbatim>\<open>timeout\<close>, \<^verbatim>\<open>params\<close>,
  \<^verbatim>\<open>headers\<close>, ...).
\<close>

type_synonym kwargs = "(string \<times> pyval) list"

definition has_key :: "kwargs \<Rightarrow> string \<Rightarrow> bool" where
  "has_key kw k = (k \<in> set (map fst kw))"

definition setdefault :: "kwargs \<Rightarrow> string \<Rightarrow> pyval \<Rightarrow> kwargs" where
  "setdefault kw k v = (if has_key kw k then kw else kw @ [(k, v)])"

text \<open>
  A \<^verbatim>\<open>requests.Response\<close> as the code reads it: the status, the final URL, the body
  as text (a property, which the code expects may raise) and the body as bytes.
\<close>

record response =
  status_code :: int
  resp_url :: string
  resp_text :: "error + string"
  resp_content :: string

text \<open>
  Calls made to the module logger, each with its level. The constructors stand for the
  format strings of the source:
  \<^item> \<open>StatusCodeFrom\<close>: \<^verbatim>\<open>'status_code %s from %s'\<close>
  \<^item> \<open>BadJsonFrom\<close>: \<^verbatim>\<open>'bad json from %s'\<close>
  \<^item> \<open>WrongResponseType\<close>: \<^verbatim>\<open>'wrong response type (%s) from %s'\<close>
  \<^item> \<open>NonZeroCode\<close>: \<^verbatim>\<open>'non-zero code (%s) from %s'\<close>
  \<^item> \<open>CurlCommand\<close>: the text built by \<^verbatim>\<open>dump_json_request_to_curl\<close>
  \<^item> \<open>TextPreview\<close>, \<open>ContentPreview\<close>: \<^verbatim>\<open>resp.text[:255]\<close>, \<^verbatim>\<open>resp.content[:255]\<close>
  \<^item> \<open>InitialUrl\<close>, \<open>RedirectedUrl\<close>: \<^verbatim>\<open>'initial url: %s'\<close>, \<^verbatim>\<open>'redirected url:'\<close>
\<close>

datatype loglevel = DEBUG | INFO | ERROR

datatype logmsg =
    StatusCodeFrom int string
  | BadJsonFrom string
  | WrongResponseType string string
  | NonZeroCode pyval string
  | CurlCommand string
  | TextPreview string
  | ContentPreview string
  | InitialUrl string
  | RedirectedUrl string

text \<open>
  Modelled from the spec: \<^verbatim>\<open>_BaseHTTPClient\<close> is defined in
  \<^verbatim>\<open>joker/interfaces/utils.py\<close>, which is not among the sources. The spec (4.2) says
  it stores the base URL at construction; the subclasses read it as \<^verbatim>\<open>self.base_url\<close>.
\<close>

record BaseHTTPClient =
  base_url :: string

text \<open>
  Everything a method can read or change: the client object it is called on, the calls made
  to the logger so far, the exceptions printed by \<^verbatim>\<open>traceback.print_exc\<close>, and the
  requests handed to the transport (method, URL, keyword options).
\<close>

record state =
  client :: BaseHTTPClient
  logged :: "(loglevel \<times> logmsg) list"
  stderr :: "error list"
  issued :: "(string \<times> string \<times> kwargs) list"

text \<open>
  What the code calls but does not define: \<^verbatim>\<open>urllib.parse.urljoin\<close>, \<^verbatim>\<open>json.loads\<close>
  (\<open>None\<close> for \<^verbatim>\<open>JSONDecodeError\<close>), \<^verbatim>\<open>json.dumps(_, default=str)\<close> (total on
  \<^typ>\<open>pyval\<close>: every key is a string and no value is cyclic), \<^verbatim>\<open>requests.request\<close>
  (a response or an exception), \<^verbatim>\<open>_logger.isEnabledFor\<close>, and
  \<^verbatim>\<open>dump_json_request_to_curl\<close> of \<^verbatim>\<open>joker/interfaces/utils.py\<close>, which builds the
  command line from the method, the URL and the body.
\<close>

record env =
  urljoin :: "string \<Rightarrow> string \<Rightarrow> string"
  json_loads :: "string \<Rightarrow> pyval option"
  json_dumps :: "pyval \<Rightarrow> string"
  requests_request :: "string \<Rightarrow> string \<Rightarrow> kwargs \<Rightarrow> error + response"
  isEnabledFor :: "loglevel \<Rightarrow> bool"
  dump_json_request_to_curl :: "string \<Rightarrow> string \<Rightarrow> pyval \<Rightarrow> string"

definition log_call :: "loglevel \<Rightarrow> logmsg \<Rightarrow> state \<Rightarrow> state" where
  "log_call lvl m s = s\<lparr>logged := logged s @ [(lvl, m)]\<rparr>"

definition print_exc :: "error \<Rightarrow> state \<Rightarrow> state" where
  "print_exc e s = s\<lparr>stderr := stderr s @ [e]\<rparr>"

definition send :: "string \<Rightarrow> string \<Rightarrow> kwargs \<Rightarrow> state \<Rightarrow> state" where
  "send m u kw s = s\<lparr>issued := issued s @ [(m, u, kw)]\<rparr>"

section \<open>HTTPClient (http.py)\<close>

text \<open>The class attribute \<^verbatim>\<open>timeout = 30\<close>.\<close>

definition timeout :: int where
  "timeout = 30"

text \<open>\<^verbatim>\<open>get_url\<close>: the path joined to the client's base URL.\<close>

definition get_url :: "env \<Rightarrow> string \<Rightarrow> state \<Rightarrow> string \<times> state" where
  "get_url E path s = (urljoin E (base_url (client s)) path, s)"

text \<open>
  \<^verbatim>\<open>_load_json\<close>. A bare \<^verbatim>\<open>return\<close> is \<open>Inr PNone\<close>. Reading \<^verbatim>\<open>resp.text\<close> and
  \<^verbatim>\<open>json.loads\<close> sit inside the \<^verbatim>\<open>try\<close>, which catches \<^verbatim>\<open>JSONDecodeError\<close> only.
  After the \<^verbatim>\<open>isinstance\<close> test there is no \<^verbatim>\<open>return\<close>: \<^verbatim>\<open>data.get('code')\<close> runs
  on whatever was decoded, twice.
\<close>

definition priv_load_json :: "env \<Rightarrow> response \<Rightarrow> state \<Rightarrow> (error + pyval) \<times> state" where
  "priv_load_json E resp s =
     (if status_code resp \<noteq> 200 then
        (Inr PNone, log_call ERROR (StatusCodeFrom (status_code resp) (resp_url resp)) s)
      else
        (case (case resp_text resp of
                 Inl e \<Rightarrow> Inl e
               | Inr t \<Rightarrow> (case json_loads E t of None \<Rightarrow> Inl JSONDecodeError | Some d \<Rightarrow> Inr d)) of
           Inl e \<Rightarrow>
             if e = JSONDecodeError then
               (Inr PNone, log_call ERROR (BadJsonFrom (resp_url resp)) (print_exc e s))
             else (Inl e, s)
         | Inr data \<Rightarrow>
             (let s1 = (if \<not> is_dict data
                        then log_call ERROR (WrongResponseType (type_name data) (resp_url resp)) s
                        else s)
              in case py_get data ''code'' of
                   Inl e \<Rightarrow> (Inl e, s1)
                 | Inr code \<Rightarrow>
                     (case py_get data ''code'' of
                        Inl e \<Rightarrow> (Inl e, s1)
                      | Inr c \<Rightarrow>
                          if truthy c then
                            (Inr PNone, log_call ERROR (NonZeroCode code (resp_url resp)) s1)
                          else (Inr data, s1)))))"

text \<open>
  \<^verbatim>\<open>log_request_as_curl(method, url, data=None, level=logging.DEBUG)\<close>: nothing unless the
  level is enabled.
\<close>

definition log_request_as_curl ::
  "env \<Rightarrow> string \<Rightarrow> string \<Rightarrow> pyval \<Rightarrow> loglevel \<Rightarrow> state \<Rightarrow> state" where
  "log_request_as_curl E method url data level s =
     (if \<not> isEnabledFor E level then s
      else log_call level (CurlCommand (dump_json_request_to_curl E method url data)) s)"

text \<open>
  \<^verbatim>\<open>log_resp_content(resp, level=logging.ERROR)\<close>: the first 255 characters of the text,
  or, when reading the text raises, the first 255 bytes and the traceback.
\<close>

definition log_resp_content :: "env \<Rightarrow> response \<Rightarrow> loglevel \<Rightarrow> state \<Rightarrow> state" where
  "log_resp_content E resp level s =
     (if \<not> isEnabledFor E level then s
      else (case resp_text resp of
              Inr t \<Rightarrow> log_call level (TextPreview (take 255 t)) s
            | Inl e \<Rightarrow> print_exc e (log_call level (ContentPreview (take 255 (resp_content resp))) s)))"

text \<open>
  \<^verbatim>\<open>json_request(method, path, data=None, **kwargs)\<close>. The two calls of
  \<^verbatim>\<open>log_resp_content\<close> and \<^verbatim>\<open>log_request_as_curl\<close> on the failure path pass no level,
  so the defaults apply: \<open>ERROR\<close> for the first, \<open>DEBUG\<close> for the second.
\<close>

definition json_request ::
  "env \<Rightarrow> string \<Rightarrow> string \<Rightarrow> pyval \<Rightarrow> kwargs \<Rightarrow> state \<Rightarrow> (error + pyval) \<times> state" where
  "json_request E method path data kwargs s =
     (let (url, s0) = get_url E path s;
          method = upper method;
          kwargs = setdefault kwargs ''timeout'' (PInt timeout);
          kwargs = (if data \<noteq> PNone then
                      AList.update ''headers'' (PDict [(''Content-type'', PStr ''application/json'')])
                        (AList.update ''data'' (PStr (json_dumps E data)) kwargs)
                    else kwargs);
          s1 = send method url kwargs s0
      in case requests_request E method url kwargs of
           Inl e \<Rightarrow> (Inl e, s1)
         | Inr resp \<Rightarrow>
             (case priv_load_json E resp s1 of
                (Inl e, s2) \<Rightarrow> (Inl e, s2)
              | (Inr resp_data, s2) \<Rightarrow>
                  if resp_data = PNone then
                    (Inr PNone,
                     log_request_as_curl E method url data DEBUG (log_resp_content E resp ERROR s2))
                  else
                    (Inr resp_data, log_request_as_curl E method url data DEBUG s2)))"

text \<open>\<^verbatim>\<open>json_get(path, **kwargs)\<close> and \<^verbatim>\<open>json_post(path, data=None, **kwargs)\<close>.\<close>

definition json_get :: "env \<Rightarrow> string \<Rightarrow> kwargs \<Rightarrow> state \<Rightarrow> (error + pyval) \<times> state" where
  "json_get E path kwargs s =
     (if has_key kwargs ''data'' then (Inl AssertionError, s)
      else json_request E ''GET'' path PNone kwargs s)"

definition json_post ::
  "env \<Rightarrow> string \<Rightarrow> pyval \<Rightarrow> kwargs \<Rightarrow> state \<Rightarrow> (error + pyval) \<times> state" where
  "json_post E path data kwargs s =
     (if has_key kwargs ''data'' then (Inl AssertionError, s)
      else json_request E ''POST'' path data kwargs s)"

section \<open>HTTPClientInterface (http.py, deprecated)\<close>

text \<open>
  \<^verbatim>\<open>get_service_url(service_name, path=None)\<close> over the configuration dict
  \<^verbatim>\<open>_upstream_config\<close>; \<^verbatim>\<open>not path\<close> holds for \<^verbatim>\<open>None\<close> and for the empty string.
\<close>

definition get_service_url ::
  "env \<Rightarrow> (string \<times> string) list \<Rightarrow> string \<Rightarrow> string option \<Rightarrow> error + string" where
  "get_service_url E upstream_config service_name path =
     (case map_of upstream_config service_name of
        None \<Rightarrow> Inl (KeyError service_name)
      | Some base \<Rightarrow>
          (case path of
             None \<Rightarrow> Inr base
           | Some p \<Rightarrow> if p = [] then Inr base else Inr (urljoin E base p)))"

section \<open>PDFClient (printable.py)\<close>

text \<open>
  \<^verbatim>\<open>_generate(tpl_path, data)\<close> and \<^verbatim>\<open>generate(tpl_path, data)\<close>.
  \<^verbatim>\<open>requests.post(url, data=payload, headers=headers)\<close> is the transport called with the
  method \<^verbatim>\<open>post\<close>. There is no \<^verbatim>\<open>try\<close> and no look at the status.
\<close>

definition priv_generate ::
  "env \<Rightarrow> string \<Rightarrow> pyval \<Rightarrow> state \<Rightarrow> (error + (string \<times> string)) \<times> state" where
  "priv_generate E tpl_path data s =
     (let url = urljoin E (base_url (client s)) tpl_path;
          headers = PDict [(''Content-type'', PStr ''application/json'')];
          payload = json_dumps E data;
          s1 = log_call INFO (InitialUrl url) s;
          kw = [(''data'', PStr payload), (''headers'', headers)];
          s2 = send ''post'' url kw s1
      in case requests_request E ''post'' url kw of
           Inl e \<Rightarrow> (Inl e, s2)
         | Inr resp \<Rightarrow>
             (Inr (resp_content resp, resp_url resp),
              log_call INFO (RedirectedUrl (resp_url resp)) s2))"

definition generate :: "env \<Rightarrow> string \<Rightarrow> pyval \<Rightarrow> state \<Rightarrow> (error + string) \<times> state" where
  "generate E tpl_path data s =
     (case priv_generate E tpl_path data s of
        (Inl e, s') \<Rightarrow> (Inl e, s')
      | (Inr r, s') \<Rightarrow> (Inr (fst r), s'))"

section \<open>Prefix checks (utils.py)\<close>

text \<open>\<^verbatim>\<open>value.startswith(p)\<close> on strings.\<close>

definition startswith :: "string \<Rightarrow> string \<Rightarrow> bool" where
  "startswith s p = (take (length p) s = p)"

text \<open>
  Modelled from the spec: \<^verbatim>\<open>check_inclusive_prefixes\<close> lives in
  \<^verbatim>\<open>joker/interfaces/utils.py\<close>, which is not among the sources (only
  \<^verbatim>\<open>tests/test_utils.py\<close> is). The spec (4.4): it returns true iff the value starts with
  at least one entry in the prefixes, and false for an empty prefix set.
\<close>

fun check_inclusive_prefixes :: "string \<Rightarrow> string list \<Rightarrow> bool" where
  "check_inclusive_prefixes s [] = False"
| "check_inclusive_prefixes s (p # ps) =
     (if startswith s p then True else check_inclusive_prefixes s ps)"

text \<open>
  Modelled from the spec: \<^verbatim>\<open>check_exclusive_prefixes\<close> lives in
  \<^verbatim>\<open>joker/interfaces/utils.py\<close>, which is not among the sources. The spec (4.4): it
  returns true iff the value starts with none of the entries in the prefixes, and true for
  an empty prefix set.
\<close>

fun check_exclusive_prefixes :: "string \<Rightarrow> string list \<Rightarrow> bool" where
  "check_exclusive_prefixes s [] = True"
| "check_exclusive_prefixes s (p # ps) =
     (if startswith s p then False else check_exclusive_prefixes s ps)"

section \<open>Derived names and example inputs\<close>

text \<open>
  The keyword options \<^const>\<open>json_request\<close> hands to the transport: its lines from
  \<^verbatim>\<open>kwargs.setdefault\<close> to the \<^verbatim>\<open>headers\<close> assignment, under a name.
\<close>

definition request_kwargs :: "env \<Rightarrow> pyval \<Rightarrow> kwargs \<Rightarrow> kwargs" where
  "request_kwargs E data kwargs =
     (let kw = setdefault kwargs ''timeout'' (PInt timeout)
      in if data \<noteq> PNone then
           AList.update ''headers'' (PDict [(''Content-type'', PStr ''application/json'')])
             (AList.update ''data'' (PStr (json_dumps E data)) kw)
         else kw)"

text \<open>The options \<^const>\<open>priv_generate\<close> hands to \<^verbatim>\<open>requests.post\<close>.\<close>

definition post_kwargs :: "env \<Rightarrow> pyval \<Rightarrow> kwargs" where
  "post_kwargs E data =
     [(''data'', PStr (json_dumps E data)),
      (''headers'', PDict [(''Content-type'', PStr ''application/json'')])]"

text \<open>
  A small world to run the code in: a decoder that knows the bodies of the spec's
  examples, a transport with one fixed outcome, and a fresh client on the base URL of the
  spec's URL-joining example (for which joining a plain relative path is concatenation).
\<close>

definition example_loads :: "string \<Rightarrow> pyval option" where
  \<open>example_loads t =
     (if t = ''[]'' then Some (PList [])
      else if t = ''{"code":0,"value":1}'' then
        Some (PDict [(''code'', PInt 0), (''value'', PInt 1)])
      else if t = ''{"code":7}'' then Some (PDict [(''code'', PInt 7)])
      else if t = ''{"value":1}'' then Some (PDict [(''value'', PInt 1)])
      else None)\<close>

definition example_env :: "error + response \<Rightarrow> (loglevel \<Rightarrow> bool) \<Rightarrow> env" where
  "example_env outcome enabled =
     \<lparr>urljoin = (\<lambda>b p. b @ p),
      json_loads = example_loads,
      json_dumps = (\<lambda>d. ''null''),
      requests_request = (\<lambda>m u kw. outcome),
      isEnabledFor = enabled,
      dump_json_request_to_curl = (\<lambda>m u d. ''curl -X '' @ m @ '' '' @ u)\<rparr>"

definition example_response :: "int \<Rightarrow> string \<Rightarrow> response" where
  "example_response st body =
     \<lparr>status_code = st, resp_url = ''https://api.example.com/v1/users'',
      resp_text = Inr body, resp_content = body\<rparr>"

definition example_state :: state where
  "example_state =
     \<lparr>client = \<lparr>base_url = ''https://api.example.com/v1/''\<rparr>,
      logged = [], stderr = [], issued = []\<rparr>"

section \<open>Basic facts\<close>

lemma upper_GET: "upper ''GET'' = ''GET''"
  by code_simp

lemma upper_POST: "upper ''POST'' = ''POST''"
  by code_simp

lemma upper_get: "upper ''get'' = ''GET''"
  by code_simp

lemmas example_defs =
  example_env_def example_response_def example_state_def example_loads_def

lemmas http_defs =
  json_request_def get_url_def send_def priv_load_json_def log_call_def print_exc_def
  log_request_as_curl_def log_resp_content_def setdefault_def has_key_def timeout_def

lemma load_json_not_200:
  "status_code resp \<noteq> 200 \<Longrightarrow>
   priv_load_json E resp s =
     (Inr PNone, log_call ERROR (StatusCodeFrom (status_code resp) (resp_url resp)) s)"
  by (simp add: priv_load_json_def)

lemma load_json_decoded:
  "status_code resp = 200 \<Longrightarrow> resp_text resp = Inr t \<Longrightarrow> json_loads E t = Some d \<Longrightarrow>
   priv_load_json E resp s =
     (if is_dict d then
        (case py_get d ''code'' of
           Inl e \<Rightarrow> (Inl e, s)
         | Inr c \<Rightarrow>
             if truthy c then (Inr PNone, log_call ERROR (NonZeroCode c (resp_url resp)) s)
             else (Inr d, s))
      else (Inl AttributeError,
            log_call ERROR (WrongResponseType (type_name d) (resp_url resp)) s))"
  by (cases d) (simp_all add: priv_load_json_def)

lemma load_json_frame:
  "client (snd (priv_load_json E resp s)) = client s"
  "issued (snd (priv_load_json E resp s)) = issued s"
  by (simp_all add: priv_load_json_def log_call_def print_exc_def Let_def
        split: sum.splits option.splits)

lemma log_frame:
  "client (log_call l m s) = client s"
  "issued (log_call l m s) = issued s"
  "client (print_exc e s) = client s"
  "issued (print_exc e s) = issued s"
  "client (log_request_as_curl E me u d l s) = client s"
  "issued (log_request_as_curl E me u d l s) = issued s"
  "client (log_resp_content E resp l s) = client s"
  "issued (log_resp_content E resp l s) = issued s"
  "client (send me u kw s) = client s"
  "issued (send me u kw s) = issued s @ [(me, u, kw)]"
  by (simp_all add: log_call_def print_exc_def log_request_as_curl_def log_resp_content_def
        send_def split: sum.splits)

text \<open>\<^const>\<open>json_request\<close> with its local names spelled out.\<close>

lemma json_request_unfold:
  "json_request E method path data kwargs s =
     (case requests_request E (upper method) (urljoin E (base_url (client s)) path)
             (request_kwargs E data kwargs) of
        Inl e \<Rightarrow>
          (Inl e, send (upper method) (urljoin E (base_url (client s)) path)
                    (request_kwargs E data kwargs) s)
      | Inr resp \<Rightarrow>
          (case fst (priv_load_json E resp
                       (send (upper method) (urljoin E (base_url (client s)) path)
                          (request_kwargs E data kwargs) s)) of
             Inl e \<Rightarrow>
               (Inl e, snd (priv_load_json E resp
                              (send (upper method) (urljoin E (base_url (client s)) path)
                                 (request_kwargs E data kwargs) s)))
           | Inr resp_data \<Rightarrow>
               if resp_data = PNone then
                 (Inr PNone,
                  log_request_as_curl E (upper method) (urljoin E (base_url (client s)) path)
                    data DEBUG
                    (log_resp_content E resp ERROR
                       (snd (priv_load_json E resp
                               (send (upper method) (urljoin E (base_url (client s)) path)
                                  (request_kwargs E data kwargs) s)))))
               else
                 (Inr resp_data,
                  log_request_as_curl E (upper method) (urljoin E (base_url (client s)) path)
                    data DEBUG
                    (snd (priv_load_json E resp
                            (send (upper method) (urljoin E (base_url (client s)) path)
                               (request_kwargs E data kwargs) s))))))"
  by (simp add: json_request_def get_url_def request_kwargs_def Let_def
        split: sum.splits prod.splits)

lemma json_request_frame:
  "client (snd (json_request E method path data kwargs s)) = client s"
  "issued (snd (json_request E method path data kwargs s)) =
     issued s @
       [(upper method, urljoin E (base_url (client s)) path, request_kwargs E data kwargs)]"
  by (simp_all add: json_request_unfold load_json_frame log_frame split: sum.splits)

lemma json_request_sent:
  assumes "issued (snd (json_request E method path data kwargs s)) = issued s @ [(m, u, kw)]"
  shows "m = upper method" and "u = urljoin E (base_url (client s)) path"
    and "kw = request_kwargs E data kwargs"
  using assms by (simp_all add: json_request_frame)

lemma map_of_setdefault:
  "map_of (setdefault kw k v) k = (case map_of kw k of None \<Rightarrow> Some v | Some w \<Rightarrow> Some w)"
proof (cases "has_key kw k")
  case True
  then have "map_of kw k \<noteq> None"
    by (simp add: has_key_def map_of_eq_None_iff)
  with True show ?thesis
    by (auto simp add: setdefault_def)
next
  case False
  then have "map_of kw k = None"
    by (simp add: has_key_def map_of_eq_None_iff)
  with False show ?thesis
    by (simp add: setdefault_def map_add_def)
qed

lemma map_of_setdefault_other:
  "k' \<noteq> k \<Longrightarrow> map_of (setdefault kw k v) k' = map_of kw k'"
  by (simp add: setdefault_def map_add_def split: option.splits)

lemma request_kwargs_timeout:
  "map_of (request_kwargs E data kwargs) ''timeout'' =
     (case map_of kwargs ''timeout'' of None \<Rightarrow> Some (PInt 30) | Some v \<Rightarrow> Some v)"
  using map_of_setdefault [of kwargs "''timeout''" "PInt 30"]
  by (simp add: request_kwargs_def Let_def update_conv' timeout_def)

lemma request_kwargs_no_body:
  "\<not> has_key kwargs ''data'' \<Longrightarrow> map_of (request_kwargs E PNone kwargs) ''data'' = None"
  by (simp add: request_kwargs_def map_of_setdefault_other has_key_def map_of_eq_None_iff)

lemma startswith_prefix: "startswith s p \<longleftrightarrow> prefix p s"
  unfolding startswith_def
  by (metis append_eq_conv_conj prefix_def)

section \<open>The JSON client's handling of a response\<close>

text \<open>
  C1. A response with status 200 whose body is valid JSON but not a mapping: the spec says
  the type mismatch is logged and the call goes on without raising. Run on the body
  \<^verbatim>\<open>[]\<close>, \<^const>\<open>json_request\<close> does log the mismatch, and then ends with
  \<^verbatim>\<open>AttributeError\<close>, raised by \<^verbatim>\<open>data.get('code')\<close> on the list; nothing is returned and
  the curl line is never logged.
\<close>

theorem json_request_list_body_raises:
  "json_request (example_env (Inr (example_response 200 ''[]'')) (\<lambda>l. True))
     ''GET'' ''users'' PNone [] example_state
   = (Inl AttributeError,
      example_state\<lparr>
        logged := [(ERROR, WrongResponseType ''<class 'list'>''
                             ''https://api.example.com/v1/users'')],
        issued := [(''GET'', ''https://api.example.com/v1/users'',
                    [(''timeout'', PInt 30)])]\<rparr>)"
  by (simp add: example_defs http_defs upper_GET)

text \<open>
  The same for every decoded value that is not a dict: \<^const>\<open>priv_load_json\<close> raises after
  logging the mismatch.
\<close>

lemma load_json_not_a_dict:
  "status_code resp = 200 \<Longrightarrow> resp_text resp = Inr t \<Longrightarrow> json_loads E t = Some d \<Longrightarrow>
   \<not> is_dict d \<Longrightarrow>
   priv_load_json E resp s =
     (Inl AttributeError, log_call ERROR (WrongResponseType (type_name d) (resp_url resp)) s)"
  by (simp add: load_json_decoded)

text \<open>
  C2. On a non-200 status the spec has the curl reproduction logged at error level. The
  failure branch of \<^const>\<open>json_request\<close> calls \<^const>\<open>log_request_as_curl\<close> without a
  level, so the default \<open>DEBUG\<close> applies, the level the success branch passes by name;
  \<^const>\<open>log_resp_content\<close>, called just before on the same branch, logs at \<open>ERROR\<close>. With
  every level enabled and a response of status 500, the calls to the logger are the status
  line and the body preview at \<open>ERROR\<close> and the curl line at \<open>DEBUG\<close>: no curl line is
  logged at \<open>ERROR\<close>.
\<close>

theorem json_request_failure_curl_at_debug:
  "logged (snd (json_request (example_env (Inr (example_response 500 ''oops'')) (\<lambda>l. True))
                  ''GET'' ''users'' PNone [] example_state))
     = [(ERROR, StatusCodeFrom 500 ''https://api.example.com/v1/users''),
        (ERROR, TextPreview ''oops''),
        (DEBUG, CurlCommand ''curl -X GET https://api.example.com/v1/users'')]
   \<and> (ERROR, CurlCommand ''curl -X GET https://api.example.com/v1/users'')
       \<notin> set (logged (snd (json_request
                 (example_env (Inr (example_response 500 ''oops'')) (\<lambda>l. True))
                 ''GET'' ''users'' PNone [] example_state)))"
  by (simp add: example_defs http_defs upper_GET)

text \<open>
  The same on every non-200 response: the only curl entry the failure branch can add is at
  \<open>DEBUG\<close>, and it adds none when \<open>DEBUG\<close> is disabled.
\<close>

lemma json_request_failure_log:
  assumes "issued (snd (json_request E method path data kwargs s)) = issued s @ [(m, u, kw)]"
    and "requests_request E m u kw = Inr resp"
    and "status_code resp \<noteq> 200"
  shows "logged (snd (json_request E method path data kwargs s)) =
           logged s
           @ [(ERROR, StatusCodeFrom (status_code resp) (resp_url resp))]
           @ (if isEnabledFor E ERROR then
                [(ERROR, case resp_text resp of
                           Inr t \<Rightarrow> TextPreview (take 255 t)
                         | Inl e \<Rightarrow> ContentPreview (take 255 (resp_content resp)))]
              else [])
           @ (if isEnabledFor E DEBUG then
                [(DEBUG, CurlCommand (dump_json_request_to_curl E m u data))]
              else [])"
proof -
  note sent = json_request_sent [OF assms(1)]
  from assms(2,3) sent show ?thesis
    by (simp add: json_request_unfold load_json_not_200 log_request_as_curl_def
          log_resp_content_def log_call_def print_exc_def send_def split: sum.splits)
qed

text \<open>
  C3. For every request whose response has a status other than 200,
  \<^const>\<open>json_request\<close> returns \<^verbatim>\<open>None\<close>; no exception leaves it.
\<close>

theorem json_request_non_200:
  assumes "issued (snd (json_request E method path data kwargs s)) = issued s @ [(m, u, kw)]"
    and "requests_request E m u kw = Inr resp"
    and "status_code resp \<noteq> 200"
  shows "fst (json_request E method path data kwargs s) = Inr PNone"
proof -
  note sent = json_request_sent [OF assms(1)]
  from assms(2,3) sent show ?thesis
    by (simp add: json_request_unfold load_json_not_200)
qed

theorem json_request_non_200_witness:
  "fst (json_request (example_env (Inr (example_response 500 ''oops'')) (\<lambda>l. True))
          ''get'' ''users'' (PDict [(''name'', PStr ''x'')]) [] example_state) = Inr PNone"
proof -
  let ?E = "example_env (Inr (example_response 500 ''oops'')) (\<lambda>l. True)"
  let ?kw = "[(''timeout'', PInt 30), (''data'', PStr ''null''),
              (''headers'', PDict [(''Content-type'', PStr ''application/json'')])]"
  have sent: "issued (snd (json_request ?E ''get'' ''users'' (PDict [(''name'', PStr ''x'')]) []
        example_state)) =
      issued example_state @ [(''GET'', ''https://api.example.com/v1/users'', ?kw)]"
    by (simp add: example_defs http_defs upper_get)
  have resp: "requests_request ?E ''GET'' ''https://api.example.com/v1/users'' ?kw
      = Inr (example_response 500 ''oops'')"
    by (simp add: example_env_def)
  have st: "status_code (example_response 500 ''oops'') \<noteq> 200"
    by (simp add: example_response_def)
  show ?thesis
    using json_request_non_200 [OF sent resp st] .
qed

text \<open>
  C4. A response with status 200 whose body decodes to a mapping \<open>d\<close>: if \<open>d\<close> has no
  \<^verbatim>\<open>code\<close> entry, or one that is falsy, \<^const>\<open>json_request\<close> returns \<open>d\<close>; if the entry is
  truthy, \<^const>\<open>json_request\<close> returns \<^verbatim>\<open>None\<close> and the non-zero-code error is among the
  calls to the logger.
\<close>

theorem json_request_code_field:
  assumes "issued (snd (json_request E method path data kwargs s)) = issued s @ [(m, u, kw)]"
    and "requests_request E m u kw = Inr resp"
    and "status_code resp = 200"
    and "resp_text resp = Inr t"
    and "json_loads E t = Some (PDict d)"
  shows "((case map_of d ''code'' of None \<Rightarrow> True | Some c \<Rightarrow> \<not> truthy c) \<longrightarrow>
            fst (json_request E method path data kwargs s) = Inr (PDict d))
       \<and> (\<forall>c. map_of d ''code'' = Some c \<and> truthy c \<longrightarrow>
            fst (json_request E method path data kwargs s) = Inr PNone
          \<and> (ERROR, NonZeroCode c (resp_url resp))
              \<in> set (logged (snd (json_request E method path data kwargs s))))"
proof -
  note sent = json_request_sent [OF assms(1)]
  let ?s1 = "send (upper method) (urljoin E (base_url (client s)) path)
               (request_kwargs E data kwargs) s"
  have load: "priv_load_json E resp ?s1 =
      (case map_of d ''code'' of
         None \<Rightarrow> (Inr (PDict d), ?s1)
       | Some c \<Rightarrow>
           if truthy c then (Inr PNone, log_call ERROR (NonZeroCode c (resp_url resp)) ?s1)
           else (Inr (PDict d), ?s1))"
    using load_json_decoded [OF assms(3,4,5), of ?s1]
    by (simp split: option.splits)
  from assms(2) sent
  have req: "requests_request E (upper method) (urljoin E (base_url (client s)) path)
      (request_kwargs E data kwargs) = Inr resp"
    by simp
  show ?thesis
    by (simp add: json_request_unfold req load log_request_as_curl_def log_resp_content_def
          log_call_def print_exc_def split: option.splits sum.splits)
qed

theorem json_request_code_field_witness:
  \<open>fst (json_request
          (example_env (Inr (example_response 200 ''{"code":0,"value":1}'')) (\<lambda>l. True))
          ''GET'' ''users'' PNone [] example_state)
     = Inr (PDict [(''code'', PInt 0), (''value'', PInt 1)])
   \<and> fst (json_request
          (example_env (Inr (example_response 200 ''{"code":7}'')) (\<lambda>l. True))
          ''GET'' ''users'' PNone [] example_state)
     = Inr PNone
   \<and> (ERROR, NonZeroCode (PInt 7) ''https://api.example.com/v1/users'')
       \<in> set (logged (snd (json_request
                 (example_env (Inr (example_response 200 ''{"code":7}'')) (\<lambda>l. True))
                 ''GET'' ''users'' PNone [] example_state)))\<close>
proof -
  let ?r0 = \<open>example_response 200 ''{"code":0,"value":1}''\<close>
  let ?r7 = \<open>example_response 200 ''{"code":7}''\<close>
  let ?E0 = "example_env (Inr ?r0) (\<lambda>l. True)"
  let ?E7 = "example_env (Inr ?r7) (\<lambda>l. True)"
  let ?u = "''https://api.example.com/v1/users''"
  let ?kw = "[(''timeout'', PInt 30)]"
  have sent0: "issued (snd (json_request ?E0 ''GET'' ''users'' PNone [] example_state)) =
      issued example_state @ [(''GET'', ?u, ?kw)]"
    by (simp add: example_defs http_defs upper_GET)
  have sent7: "issued (snd (json_request ?E7 ''GET'' ''users'' PNone [] example_state)) =
      issued example_state @ [(''GET'', ?u, ?kw)]"
    by (simp add: example_defs http_defs upper_GET)
  have resp0: "requests_request ?E0 ''GET'' ?u ?kw = Inr ?r0"
    by (simp add: example_env_def)
  have resp7: "requests_request ?E7 ''GET'' ?u ?kw = Inr ?r7"
    by (simp add: example_env_def)
  have st0: "status_code ?r0 = 200" and st7: "status_code ?r7 = 200"
    by (simp_all add: example_response_def)
  have tx0: \<open>resp_text ?r0 = Inr ''{"code":0,"value":1}''\<close>
    and tx7: \<open>resp_text ?r7 = Inr ''{"code":7}''\<close>
    by (simp_all add: example_response_def)
  have ld0: \<open>json_loads ?E0 ''{"code":0,"value":1}'' =
      Some (PDict [(''code'', PInt 0), (''value'', PInt 1)])\<close>
    by (simp add: example_env_def example_loads_def)
  have ld7: \<open>json_loads ?E7 ''{"code":7}'' = Some (PDict [(''code'', PInt 7)])\<close>
    by (simp add: example_env_def example_loads_def)
  have url7: "resp_url ?r7 = ?u"
    by (simp add: example_response_def)
  show ?thesis
    using json_request_code_field [OF sent0 resp0 st0 tx0 ld0]
      json_request_code_field [OF sent7 resp7 st7 tx7 ld7] url7
    by simp
qed

section \<open>How a request is issued\<close>

text \<open>
  C5. Every call of \<^const>\<open>json_request\<close> hands exactly one request to the transport. Its
  \<^verbatim>\<open>timeout\<close> option is 30 when the caller gave none, and the caller's value otherwise.
\<close>

theorem json_request_timeout:
  "\<exists>kw. issued (snd (json_request E method path data kwargs s)) =
           issued s @ [(upper method, urljoin E (base_url (client s)) path, kw)]
       \<and> map_of kw ''timeout'' =
           (case map_of kwargs ''timeout'' of None \<Rightarrow> Some (PInt 30) | Some v \<Rightarrow> Some v)"
  using json_request_frame(2) request_kwargs_timeout
  by blast

text \<open>
  C6. \<^const>\<open>json_get\<close> called with a \<^verbatim>\<open>data\<close> option fails its assertion and leaves the
  state as it was: no request has been handed to the transport. Called without one it is
  \<^const>\<open>json_request\<close> with the method \<^verbatim>\<open>GET\<close> and no body, and the request it issues
  carries the method \<^verbatim>\<open>GET\<close> and no \<^verbatim>\<open>data\<close> option.
\<close>

theorem json_get_forbids_body:
  "(has_key kwargs ''data'' \<longrightarrow> json_get E path kwargs s = (Inl AssertionError, s))
   \<and> (\<not> has_key kwargs ''data'' \<longrightarrow>
        json_get E path kwargs s = json_request E ''GET'' path PNone kwargs s
      \<and> (\<exists>kw. issued (snd (json_get E path kwargs s)) =
                  issued s @ [(''GET'', urljoin E (base_url (client s)) path, kw)]
              \<and> map_of kw ''data'' = None))"
  by (simp add: json_get_def json_request_frame upper_GET request_kwargs_no_body)

theorem json_get_forbids_body_witness:
  "json_get (example_env (Inr (example_response 200 ''[]'')) (\<lambda>l. True)) ''users''
      [(''data'', PDict [])] example_state = (Inl AssertionError, example_state)
   \<and> json_get (example_env (Inr (example_response 500 ''oops'')) (\<lambda>l. True)) ''users''
      [(''params'', PDict [])] example_state
     = json_request (example_env (Inr (example_response 500 ''oops'')) (\<lambda>l. True))
         ''GET'' ''users'' PNone [(''params'', PDict [])] example_state"
  using json_get_forbids_body
      [of "[(''data'', PDict [])]" "example_env (Inr (example_response 200 ''[]'')) (\<lambda>l. True)"
          "''users''" example_state]
    json_get_forbids_body
      [of "[(''params'', PDict [])]"
          "example_env (Inr (example_response 500 ''oops'')) (\<lambda>l. True)"
          "''users''" example_state]
  by (simp add: has_key_def)

section \<open>Prefix checks\<close>

lemma check_inclusive_prefixes_iff:
  "check_inclusive_prefixes s P \<longleftrightarrow> (\<exists>p \<in> set P. prefix p s)"
  by (induction P) (simp_all add: startswith_prefix)

lemma check_exclusive_prefixes_iff:
  "check_exclusive_prefixes s P \<longleftrightarrow> (\<forall>p \<in> set P. \<not> prefix p s)"
  by (induction P) (simp_all add: startswith_prefix)

text \<open>The six assertions of \<^verbatim>\<open>tests/test_utils.py\<close> hold of the two functions.\<close>

lemma test_multicheck:
  "check_inclusive_prefixes ''hello-world'' [''good'', ''hello'']"
  "\<not> check_inclusive_prefixes ''hello-world'' [''bad'', ''ello'']"
  "\<not> check_inclusive_prefixes ''hello-world'' []"
  "check_exclusive_prefixes ''hello-world'' [''world'', ''ello'']"
  "check_exclusive_prefixes ''hello-world'' []"
  "\<not> check_exclusive_prefixes ''hello-world'' [''hello'', ''ello'']"
  by (simp_all add: startswith_def)

text \<open>
  C7. For every string \<open>s\<close> and list of prefixes \<open>P\<close>: \<^const>\<open>check_inclusive_prefixes\<close>
  is true iff some entry of \<open>P\<close> is a prefix of \<open>s\<close>, so false for the empty list;
  \<^const>\<open>check_exclusive_prefixes\<close> is true iff no entry of \<open>P\<close> is a prefix of \<open>s\<close>, so
  true for the empty list.
\<close>

theorem check_prefixes_spec:
  "(check_inclusive_prefixes s P \<longleftrightarrow> (\<exists>p \<in> set P. prefix p s))
   \<and> \<not> check_inclusive_prefixes s []
   \<and> (check_exclusive_prefixes s P \<longleftrightarrow> (\<forall>p \<in> set P. \<not> prefix p s))
   \<and> check_exclusive_prefixes s []"
  by (simp add: check_inclusive_prefixes_iff check_exclusive_prefixes_iff)

theorem check_prefixes_spec_witness:
  "check_inclusive_prefixes ''hello-world'' [''good'', ''hello'']
   \<and> \<not> check_inclusive_prefixes ''hello-world'' [''bad'', ''ello'']
   \<and> check_exclusive_prefixes ''hello-world'' [''world'', ''ello'']
   \<and> \<not> check_exclusive_prefixes ''hello-world'' [''hello'', ''ello'']"
proof -
  have 1: "\<exists>p \<in> set [''good'', ''hello'']. prefix p ''hello-world''"
    by simp
  have 2: "\<not> (\<exists>p \<in> set [''bad'', ''ello'']. prefix p ''hello-world'')"
    by simp
  have 3: "\<forall>p \<in> set [''world'', ''ello'']. \<not> prefix p ''hello-world''"
    by simp
  have 4: "\<not> (\<forall>p \<in> set [''hello'', ''ello'']. \<not> prefix p ''hello-world'')"
    by simp
  from 1 2 3 4 show ?thesis
    using check_prefixes_spec [of "''hello-world''" "[''good'', ''hello'']"]
      check_prefixes_spec [of "''hello-world''" "[''bad'', ''ello'']"]
      check_prefixes_spec [of "''hello-world''" "[''world'', ''ello'']"]
      check_prefixes_spec [of "''hello-world''" "[''hello'', ''ello'']"]
    by blast
qed

section \<open>The document-generation client\<close>

lemma priv_generate_unfold:
  "priv_generate E tpl_path data s =
     (case requests_request E ''post'' (urljoin E (base_url (client s)) tpl_path)
             (post_kwargs E data) of
        Inl e \<Rightarrow>
          (Inl e,
           send ''post'' (urljoin E (base_url (client s)) tpl_path) (post_kwargs E data)
             (log_call INFO (InitialUrl (urljoin E (base_url (client s)) tpl_path)) s))
      | Inr resp \<Rightarrow>
          (Inr (resp_content resp, resp_url resp),
           log_call INFO (RedirectedUrl (resp_url resp))
             (send ''post'' (urljoin E (base_url (client s)) tpl_path) (post_kwargs E data)
                (log_call INFO (InitialUrl (urljoin E (base_url (client s)) tpl_path)) s))))"
  by (simp add: priv_generate_def post_kwargs_def Let_def split: sum.splits)

text \<open>
  C8. \<^const>\<open>generate\<close> posts once, with the serialised data and the JSON content type. If
  the transport raises, the same exception leaves \<^const>\<open>generate\<close> and
  \<^const>\<open>priv_generate\<close>. If the transport answers, whatever the status, \<^const>\<open>generate\<close>
  returns the body bytes and \<^const>\<open>priv_generate\<close> the bytes with the final URL.
\<close>

theorem generate_passthrough:
  "(requests_request E ''post'' (urljoin E (base_url (client s)) tpl_path) (post_kwargs E data)
      = Inl e \<longrightarrow>
      fst (generate E tpl_path data s) = Inl e
    \<and> fst (priv_generate E tpl_path data s) = Inl e)
   \<and> (requests_request E ''post'' (urljoin E (base_url (client s)) tpl_path) (post_kwargs E data)
      = Inr resp \<longrightarrow>
      fst (generate E tpl_path data s) = Inr (resp_content resp)
    \<and> fst (priv_generate E tpl_path data s) = Inr (resp_content resp, resp_url resp))"
  by (simp add: generate_def priv_generate_unfold)

theorem generate_passthrough_witness:
  "fst (generate (example_env (Inl (RequestException ''connection refused'')) (\<lambda>l. True))
          ''invoice.html'' (PDict []) example_state)
     = Inl (RequestException ''connection refused'')
   \<and> fst (generate (example_env (Inr (example_response 500 ''oops'')) (\<lambda>l. True))
          ''invoice.html'' (PDict []) example_state)
     = Inr ''oops''
   \<and> fst (priv_generate (example_env (Inr (example_response 500 ''oops'')) (\<lambda>l. True))
          ''invoice.html'' (PDict []) example_state)
     = Inr (''oops'', ''https://api.example.com/v1/users'')"
  using generate_passthrough
      [of "example_env (Inl (RequestException ''connection refused'')) (\<lambda>l. True)"
          example_state "''invoice.html''" "PDict []" "RequestException ''connection refused''"]
    generate_passthrough
      [of "example_env (Inr (example_response 500 ''oops'')) (\<lambda>l. True)"
          example_state "''invoice.html''" "PDict []" _ "example_response 500 ''oops''"]
  by (simp add: example_env_def example_response_def)

section \<open>The base URL\<close>

lemma priv_generate_frame:
  "client (snd (priv_generate E tpl_path data s)) = client s"
  by (simp add: priv_generate_unfold log_frame split: sum.splits)

text \<open>
  C9. None of \<^const>\<open>get_url\<close>, \<^const>\<open>json_request\<close>, \<^const>\<open>json_get\<close>,
  \<^const>\<open>json_post\<close>, \<^const>\<open>priv_generate\<close> and \<^const>\<open>generate\<close> changes the base URL
  stored in the client.
\<close>

theorem base_url_unchanged:
  "base_url (client (snd (get_url E path s))) = base_url (client s)
   \<and> base_url (client (snd (json_request E method path data kwargs s))) = base_url (client s)
   \<and> base_url (client (snd (json_get E path kwargs s))) = base_url (client s)
   \<and> base_url (client (snd (json_post E path data kwargs s))) = base_url (client s)
   \<and> base_url (client (snd (priv_generate E path data s))) = base_url (client s)
   \<and> base_url (client (snd (generate E path data s))) = base_url (client s)"
proof -
  have 1: "base_url (client (snd (get_url E path s))) = base_url (client s)"
    by (simp add: get_url_def)
  have 2: "base_url (client (snd (json_request E method path data kwargs s))) = base_url (client s)"
    by (simp add: json_request_frame)
  have 3: "base_url (client (snd (json_get E path kwargs s))) = base_url (client s)"
    by (simp add: json_get_def json_request_frame)
  have 4: "base_url (client (snd (json_post E path data kwargs s))) = base_url (client s)"
    by (simp add: json_post_def json_request_frame)
  have 5: "base_url (client (snd (priv_generate E path data s))) = base_url (client s)"
    by (simp add: priv_generate_frame)
  have "snd (generate E path data s) = snd (priv_generate E path data s)"
    by (simp add: generate_def split: prod.splits sum.splits)
  then have 6: "base_url (client (snd (generate E path data s))) = base_url (client s)"
    by (simp add: priv_generate_frame)
  from 1 2 3 4 5 6 show ?thesis
    by blast
qed

section \<open>The deprecated wrapper\<close>

text \<open>
  C10. For a service name registered in the configuration, \<^const>\<open>get_service_url\<close> with
  no path or with the empty path returns the configured base URL itself, whatever the URL
  join would compute; with a non-empty path it returns the base URL joined with that path.
\<close>

theorem get_service_url_registered:
  assumes "map_of upstream_config service_name = Some base"
  shows "get_service_url E upstream_config service_name None = Inr base
       \<and> get_service_url E upstream_config service_name (Some []) = Inr base
       \<and> (p \<noteq> [] \<longrightarrow>
           get_service_url E upstream_config service_name (Some p) = Inr (urljoin E base p))"
  using assms by (simp add: get_service_url_def)

theorem get_service_url_registered_witness:
  "get_service_url (example_env (Inl (RequestException ''unused'')) (\<lambda>l. True))
      [(''users'', ''https://api.example.com/v1/'')] ''users'' None
     = Inr ''https://api.example.com/v1/''
   \<and> get_service_url (example_env (Inl (RequestException ''unused'')) (\<lambda>l. True))
      [(''users'', ''https://api.example.com/v1/'')] ''users'' (Some [])
     = Inr ''https://api.example.com/v1/''
   \<and> get_service_url (example_env (Inl (RequestException ''unused'')) (\<lambda>l. True))
      [(''users'', ''https://api.example.com/v1/'')] ''users'' (Some ''me'')
     = Inr ''https://api.example.com/v1/me''"
proof -
  have reg: "map_of [(''users'', ''https://api.example.com/v1/'')] ''users''
      = Some ''https://api.example.com/v1/''"
    by simp
  show ?thesis
    using get_service_url_registered [OF reg,
        of "example_env (Inl (RequestException ''unused'')) (\<lambda>l. True)" "''me''"]
    by (simp add: example_env_def)
qed

end
